theory Spec2Isabelle
  imports Main "HOL-Library.Sublist" "HOL-Library.Word"
begin

section \<open>Python strings and exceptions\<close>

text \<open>
  A Python \<open>str\<close> is modelled as a \<open>string\<close> whose characters stand for the code points
  below 256. \<open>lower\<close>, \<open>strip\<close> and \<open>endswith\<close> are the \<open>str\<close> methods on that range:
  \<open>lower\<close> maps A-Z and the upper-case Latin-1 letters to their lower-case forms, and
  \<open>isspace\<close> holds of the twelve white-space code points below 256.
\<close>

definition lower_char :: "char \<Rightarrow> char" where
  "lower_char c =
     (let n = (of_char c :: nat)
      in if (65 \<le> n \<and> n \<le> 90) \<or> (192 \<le> n \<and> n \<le> 222 \<and> n \<noteq> 215)
         then char_of (n + 32) else c)"

definition lower :: "string \<Rightarrow> string" where
  "lower s = map lower_char s"

definition endswith :: "string \<Rightarrow> string \<Rightarrow> bool" where
  "endswith s suf = (length suf \<le> length s \<and> drop (length s - length suf) s = suf)"

definition isspace :: "char \<Rightarrow> bool" where
  "isspace c = ((of_char c :: nat) \<in> {9, 10, 11, 12, 13, 28, 29, 30, 31, 32, 133, 160})"

definition strip :: "string \<Rightarrow> string" where
  "strip s = rev (dropWhile isspace (rev (dropWhile isspace s)))"

text \<open>\<open>sep.join(xs)\<close>.\<close>

fun join :: "string \<Rightarrow> string list \<Rightarrow> string" where
  "join sep [] = []"
| "join sep [x] = x"
| "join sep (x # y # ys) = x @ sep @ join sep (y # ys)"

text \<open>\<open>str(n)\<close> of a non-negative and of an arbitrary Python integer.\<close>

definition digit_char :: "nat \<Rightarrow> char" where
  "digit_char d = char_of (48 + d)"

fun str_nat :: "nat \<Rightarrow> string" where
  "str_nat n = (if n < 10 then [digit_char n] else str_nat (n div 10) @ [digit_char (n mod 10)])"

declare str_nat.simps [simp del]

definition str_int :: "int \<Rightarrow> string" where
  "str_int i = (if i < 0 then CHR ''-'' # str_nat (nat (- i)) else str_nat (nat i))"

text \<open>
  The exception classes that the handlers of the program tell apart, or raise themselves.
  \<open>FileDataError\<close> and \<open>FileNotFoundError\<close> are the PDF library's (both subclasses of
  \<open>RuntimeError\<close>, neither of \<open>ValueError\<close>); \<open>PlainException\<close> is \<open>Exception\<close> itself.
  Every class here is a subclass of \<open>Exception\<close>, so \<open>except Exception\<close> catches all of them.
\<close>

datatype exn_class =
    FileDataError | FileNotFoundError | ValueError | TypeError | UnboundLocalError
  | OSError | RuntimeError | PlainException

datatype exn = Exn exn_class string

fun exn_cls :: "exn \<Rightarrow> exn_class" where
  "exn_cls (Exn k m) = k"

text \<open>\<open>str(e)\<close> of an exception built from one message.\<close>

fun str_exn :: "exn \<Rightarrow> string" where
  "str_exn (Exn k m) = m"

section \<open>Text extractor (backend/pdf_extractor.py)\<close>

text \<open>
  The PDF library is a collaborator: \<open>fitz.open\<close> either raises or gives a document, a
  sequence of pages, and \<open>page.get_text()\<close> either raises or gives the page's text.
\<close>

type_synonym page = "exn + string"
type_synonym document = "page list"

definition page_marker :: "nat \<Rightarrow> string \<Rightarrow> string" where
  "page_marker page_num text =
     ''--- Page '' @ str_nat (page_num + 1) @ '' ---'' @ [CHR 0x0A] @ text"

text \<open>
  The loop \<open>for page_num in range(len(doc))\<close>: \<open>text_content\<close> is the list built so far,
  \<open>page_num\<close> the index of the first page still to read.
\<close>

fun extract_pages :: "document \<Rightarrow> nat \<Rightarrow> string list \<Rightarrow> exn + string list" where
  "extract_pages [] page_num text_content = Inr text_content"
| "extract_pages (Inl e # doc) page_num text_content = Inl e"
| "extract_pages (Inr text # doc) page_num text_content =
     extract_pages doc (page_num + 1)
       (if strip text \<noteq> [] then text_content @ [page_marker page_num text] else text_content)"

text \<open>The body of the \<open>try\<close> of \<open>extract_text\<close>, given what \<open>fitz.open(pdf_path)\<close> did.\<close>

definition extract_text_try :: "exn + document \<Rightarrow> exn + string" where
  "extract_text_try opened =
     (case opened of
        Inl e \<Rightarrow> Inl e
      | Inr doc \<Rightarrow>
          (case extract_pages doc 0 [] of
             Inl e \<Rightarrow> Inl e
           | Inr text_content \<Rightarrow>
               if text_content = [] then Inl (Exn ValueError ''No text content found in PDF'')
               else Inr (join [CHR 0x0A, CHR 0x0A] text_content)))"

text \<open>
  \<open>extract_text\<close> with its two handlers, in the source's order: \<open>except fitz.FileDataError\<close>
  first, then \<open>except Exception\<close>, which catches everything else raised in the body.
\<close>

definition extract_text :: "exn + document \<Rightarrow> exn + string" where
  "extract_text opened =
     (case extract_text_try opened of
        Inr text \<Rightarrow> Inr text
      | Inl e \<Rightarrow>
          if exn_cls e = FileDataError
          then Inl (Exn ValueError (''Invalid or corrupted PDF file: '' @ str_exn e))
          else Inl (Exn PlainException (''Error extracting text from PDF: '' @ str_exn e)))"

definition get_page_count :: "exn + document \<Rightarrow> exn + nat" where
  "get_page_count opened =
     (case opened of
        Inl e \<Rightarrow> Inl (Exn PlainException (''Error reading PDF: '' @ str_exn e))
      | Inr doc \<Rightarrow> Inr (length doc))"

section \<open>Summarization client (agent/agent.py)\<close>

text \<open>
  The model runtime is a collaborator. A response event may have no content
  (\<open>event.content\<close> absent or \<open>None\<close>); a content has \<open>parts\<close>, a list or \<open>None\<close>; a part has
  a \<open>text\<close>, a \<open>str\<close> or \<open>None\<close>.
\<close>

datatype part = Part "string option"
datatype content = Content "part list option"
datatype event = Event "content option"

text \<open>What the program does to the world outside it, in the order it does it.\<close>

datatype effect =
    CreateTemp string
  | OpenPdf string
  | CreateSession string string string
  | RunAgent string string string
  | Unlink string

text \<open>
  The runtime as one call sees it: the value \<open>uuid.uuid4()\<close> returns, whether
  \<open>create_session(app_name, user_id, session_id)\<close> raises, and what
  \<open>run_async(user_id, session_id, new_message)\<close> yields: a sequence of events, after which
  the stream either ends or raises.
\<close>

record runtime =
  uuid4 :: "128 word"
  create_session :: "string \<Rightarrow> string \<Rightarrow> string \<Rightarrow> exn option"
  run_async :: "string \<Rightarrow> string \<Rightarrow> string \<Rightarrow> event list \<times> exn option"

definition hex_digit :: "nat \<Rightarrow> char" where
  "hex_digit d = (if d < 10 then char_of (48 + d) else char_of (87 + d))"

text \<open>\<open>UUID.hex\<close>: the 32 lower-case hexadecimal digits of the 128-bit value.\<close>

definition uuid_hex :: "128 word \<Rightarrow> string" where
  "uuid_hex u = map (\<lambda>i. hex_digit (unat (and (drop_bit (4 * (31 - i)) u) 15))) [0..<32]"

definition user_id :: string where
  "user_id = ''pdf_user''"

definition session_id :: "128 word \<Rightarrow> string" where
  "session_id u = ''pdf_session_'' @ take 8 (uuid_hex u)"

definition app_name :: string where
  "app_name = ''pdf_summarizer''"

definition prompt_text :: "string \<Rightarrow> string" where
  "prompt_text pdf_text =
     ''Please summarize the following PDF document:'' @ [CHR 0x0A, CHR 0x0A] @ pdf_text
     @ [CHR 0x0A, CHR 0x0A]
     @ ''Provide a comprehensive summary following the guidelines in your instructions.''"

text \<open>The inner loop \<open>for part in event.content.parts\<close>.\<close>

fun add_parts :: "part list \<Rightarrow> string \<Rightarrow> string" where
  "add_parts [] response_text = response_text"
| "add_parts (Part None # ps) response_text = add_parts ps response_text"
| "add_parts (Part (Some t) # ps) response_text =
     add_parts ps (if t \<noteq> [] then response_text @ t else response_text)"

text \<open>
  The loop \<open>async for event in runner.run_async(...)\<close> over the events that arrive.
  Iterating over \<open>parts\<close> when it is \<open>None\<close> raises \<open>TypeError\<close>.
\<close>

fun consume_events :: "event list \<Rightarrow> string \<Rightarrow> exn + string" where
  "consume_events [] response_text = Inr response_text"
| "consume_events (Event None # evs) response_text = consume_events evs response_text"
| "consume_events (Event (Some (Content None)) # evs) response_text =
     Inl (Exn TypeError ([CHR 0x27] @ ''NoneType'' @ [CHR 0x27] @ '' object is not iterable''))"
| "consume_events (Event (Some (Content (Some ps))) # evs) response_text =
     consume_events evs (add_parts ps response_text)"

definition run_loop :: "event list \<times> exn option \<Rightarrow> exn + string" where
  "run_loop stream =
     (case consume_events (fst stream) [] of
        Inl e \<Rightarrow> Inl e
      | Inr response_text \<Rightarrow>
          (case snd stream of Some e \<Rightarrow> Inl e | None \<Rightarrow> Inr response_text))"

text \<open>The body of the \<open>try\<close> of \<open>get_pdf_summary\<close>.\<close>

definition get_pdf_summary_try :: "runtime \<Rightarrow> string \<Rightarrow> (exn + string) \<times> effect list" where
  "get_pdf_summary_try rt pdf_text =
     (let sid = session_id (uuid4 rt);
          created = [CreateSession app_name user_id sid]
      in case create_session rt app_name user_id sid of
           Some e \<Rightarrow> (Inl e, created)
         | None \<Rightarrow>
             (let ran = created @ [RunAgent user_id sid (prompt_text pdf_text)]
              in case run_loop (run_async rt user_id sid (prompt_text pdf_text)) of
                   Inl e \<Rightarrow> (Inl e, ran)
                 | Inr response_text \<Rightarrow>
                     if strip response_text \<noteq> [] then (Inr (strip response_text), ran)
                     else (Inl (Exn PlainException
                       (''ADK did not generate any response. ''
                        @ ''Check if Ollama is running and the model is available.'')), ran)))"

definition get_pdf_summary :: "runtime \<Rightarrow> string \<Rightarrow> (exn + string) \<times> effect list" where
  "get_pdf_summary rt pdf_text =
     (case get_pdf_summary_try rt pdf_text of
        (Inr summary, effs) \<Rightarrow> (Inr summary, effs)
      | (Inl e, effs) \<Rightarrow>
          (Inl (Exn PlainException
             (''Google ADK failed to generate summary. '' @ ''Error: '' @ str_exn e @ ''. ''
              @ ''This helps identify ADK configuration or integration issues.'')), effs))"

section \<open>Request pipeline (backend/main.py)\<close>

type_synonym bytes = "8 word list"
type_synonym filesystem = "string \<rightharpoonup> bytes"

record config =
  MAX_FILE_SIZE_MB :: int

definition MAX_FILE_SIZE_BYTES :: "config \<Rightarrow> int" where
  "MAX_FILE_SIZE_BYTES cfg = MAX_FILE_SIZE_MB cfg * 1024 * 1024"

text \<open>
  What the collaborators do during one request: \<open>NamedTemporaryFile(delete=False)\<close> raises or
  creates a file at a new path, \<open>temp_file.write\<close> and the close at the end of the \<open>with\<close>
  block raise or not, the PDF library reads the bytes of a file as a document or raises,
  the model runtime answers, and \<open>os.unlink\<close> raises or removes the file.
\<close>

record env =
  tmp_create :: "exn + string"
  tmp_write :: "exn option"
  tmp_close :: "exn option"
  pdf_library :: "bytes \<Rightarrow> exn + document"
  model_runtime :: runtime
  unlink_exn :: "exn option"

record SummaryResponse =
  summary :: string
  page_count :: nat
  file_name :: string

text \<open>
  What leaves the handler when it does not return: an \<open>HTTPException\<close> with its status
  and detail, or any other exception, which the framework answers with status 500.
\<close>

datatype raised = HTTPException nat string | Uncaught exn

fun status_code :: "raised + SummaryResponse \<Rightarrow> nat" where
  "status_code (Inr r) = 200"
| "status_code (Inl (HTTPException s d)) = s"
| "status_code (Inl (Uncaught e)) = 500"

text \<open>The message of the \<open>UnboundLocalError\<close> raised when \<open>temp_file_path\<close> is read unbound.\<close>

definition unbound_temp_file_path :: string where
  "unbound_temp_file_path =
     ''cannot access local variable '' @ [CHR 0x27] @ ''temp_file_path'' @ [CHR 0x27]
     @ '' where it is not associated with a value''"

record world =
  files :: filesystem
  log :: "effect list"

definition fitz_open :: "env \<Rightarrow> world \<Rightarrow> string \<Rightarrow> exn + document" where
  "fitz_open env w pdf_path =
     (case files w pdf_path of
        None \<Rightarrow> Inl (Exn FileNotFoundError (''no such file: '' @ [CHR 0x27] @ pdf_path @ [CHR 0x27]))
      | Some b \<Rightarrow> pdf_library env b)"

text \<open>
  The \<open>with tempfile.NamedTemporaryFile(delete=False, suffix='.pdf') as temp_file\<close> block.
  When an exception leaves the block the result is \<open>Inl\<close>: the exception, whether
  \<open>temp_file\<close> was bound to the file object, the value of \<open>temp_file_path\<close> (\<open>None\<close> while
  the name is unbound) and the world then. Otherwise it is \<open>Inr\<close>: \<open>temp_file_path\<close> and the
  world. The file is created empty, \<open>temp_file_path\<close> is assigned after the write, inside
  the block, and the file is closed when the block is left.
\<close>

definition stage_upload ::
  "env \<Rightarrow> bytes \<Rightarrow> world \<Rightarrow> (exn \<times> bool \<times> string option \<times> world) + (string \<times> world)" where
  "stage_upload env content w =
     (case tmp_create env of
        Inl e \<Rightarrow> Inl (e, False, None, w)
      | Inr p \<Rightarrow>
          (let w1 = w\<lparr>files := (files w)(p \<mapsto> []), log := log w @ [CreateTemp p]\<rparr>
           in case tmp_write env of
                Some e \<Rightarrow> Inl (e, True, None, w1)
              | None \<Rightarrow>
                  (let w2 = w1\<lparr>files := (files w1)(p \<mapsto> content)\<rparr>
                   in case tmp_close env of
                        Some e \<Rightarrow> Inl (e, True, Some p, w2)
                      | None \<Rightarrow> Inr (p, w2))))"

text \<open>The two handlers around the extraction: \<open>except ValueError\<close>, then \<open>except Exception\<close>.\<close>

definition pdf_error :: "exn \<Rightarrow> raised" where
  "pdf_error e =
     (if exn_cls e = ValueError then HTTPException 400 (str_exn e)
      else HTTPException 500 (''Error processing PDF: '' @ str_exn e))"

text \<open>The rest of the \<open>try\<close> body, once the upload is staged at \<open>temp_file_path\<close>.\<close>

definition process_staged ::
  "env \<Rightarrow> string \<Rightarrow> string \<Rightarrow> world \<Rightarrow> (raised + SummaryResponse) \<times> world" where
  "process_staged env filename temp_file_path w =
     (let w1 = w\<lparr>log := log w @ [OpenPdf temp_file_path]\<rparr>
      in case extract_text (fitz_open env w temp_file_path) of
           Inl e \<Rightarrow> (Inl (pdf_error e), w1)
         | Inr pdf_text \<Rightarrow>
             (let w2 = w1\<lparr>log := log w1 @ [OpenPdf temp_file_path]\<rparr>
              in case get_page_count (fitz_open env w1 temp_file_path) of
                   Inl e \<Rightarrow> (Inl (pdf_error e), w2)
                 | Inr n \<Rightarrow>
                     (case get_pdf_summary (model_runtime env) pdf_text of
                        (Inl e, effs) \<Rightarrow>
                          (Inl (HTTPException 500 (''Error generating summary: '' @ str_exn e)),
                           w2\<lparr>log := log w2 @ effs\<rparr>)
                      | (Inr s, effs) \<Rightarrow>
                          (Inr \<lparr>summary = s, page_count = n, file_name = filename\<rparr>,
                           w2\<lparr>log := log w2 @ effs\<rparr>))))"

text \<open>
  The \<open>try\<close> with its handlers \<open>except HTTPException: raise\<close> and \<open>except Exception\<close>, without
  the \<open>finally\<close>: the outcome, the bindings of \<open>temp_file\<close> and \<open>temp_file_path\<close>, the world.
\<close>

definition upload_try ::
  "env \<Rightarrow> string \<Rightarrow> bytes \<Rightarrow> world
     \<Rightarrow> (raised + SummaryResponse) \<times> bool \<times> string option \<times> world" where
  "upload_try env filename content w =
     (case stage_upload env content w of
        Inl (e, temp_file, temp_file_path, w1) \<Rightarrow>
          (Inl (HTTPException 500 (''Unexpected error: '' @ str_exn e)),
           temp_file, temp_file_path, w1)
      | Inr (p, w1) \<Rightarrow>
          (case process_staged env filename p w1 of
             (res, w2) \<Rightarrow> (res, True, Some p, w2)))"

text \<open>
  The \<open>finally\<close> block. \<open>temp_file and os.path.exists(temp_file_path)\<close> reads
  \<open>temp_file_path\<close> only when \<open>temp_file\<close> is bound to the file object, and reading the name
  while it is unbound raises \<open>UnboundLocalError\<close>, which replaces the outcome of the \<open>try\<close>.
  An exception of \<open>os.unlink\<close> is caught and dropped.
\<close>

definition cleanup ::
  "env \<Rightarrow> (raised + SummaryResponse) \<times> bool \<times> string option \<times> world
     \<Rightarrow> (raised + SummaryResponse) \<times> world" where
  "cleanup env tried =
     (case tried of
        (res, temp_file, temp_file_path, w) \<Rightarrow>
          if \<not> temp_file then (res, w)
          else (case temp_file_path of
                  None \<Rightarrow>
                    (Inl (Uncaught (Exn UnboundLocalError unbound_temp_file_path)), w)
                | Some p \<Rightarrow>
                    if files w p = None then (res, w)
                    else (case unlink_exn env of
                            Some e \<Rightarrow> (res, w\<lparr>log := log w @ [Unlink p]\<rparr>)
                          | None \<Rightarrow>
                              (res, w\<lparr>files := (files w)(p := None),
                                       log := log w @ [Unlink p]\<rparr>))))"

text \<open>
  The handler of \<open>POST /upload\<close>, from the file name of the uploaded part and the bytes that
  \<open>await file.read()\<close> returns. The three checks come in the source's order, before the
  \<open>try\<close>: a rejection there leaves the world as it was.
\<close>

definition upload_pdf ::
  "config \<Rightarrow> env \<Rightarrow> string \<Rightarrow> bytes \<Rightarrow> world \<Rightarrow> (raised + SummaryResponse) \<times> world" where
  "upload_pdf cfg env filename content w =
     (if \<not> endswith (lower filename) ''.pdf''
      then (Inl (HTTPException 400 ''Only PDF files are allowed''), w)
      else if int (length content) > MAX_FILE_SIZE_BYTES cfg
      then (Inl (HTTPException 400
              (''File size exceeds maximum allowed size of '' @ str_int (MAX_FILE_SIZE_MB cfg)
               @ ''MB'')), w)
      else if length content = 0
      then (Inl (HTTPException 400 ''Uploaded file is empty''), w)
      else cleanup env (upload_try env filename content w))"

section \<open>Notions of the specification\<close>

text \<open>
  A file name has the extension \<open>.pdf\<close>, upper or lower case: its last four characters are a
  dot and the letters p, d, f in either case.
\<close>

definition pdf_extension_ignoring_case :: "string \<Rightarrow> bool" where
  "pdf_extension_ignoring_case filename =
     (case rev filename of
        c # b # a # dot # stem \<Rightarrow>
          dot = CHR ''.'' \<and> (a = CHR ''p'' \<or> a = CHR ''P'') \<and> (b = CHR ''d'' \<or> b = CHR ''D'')
          \<and> (c = CHR ''f'' \<or> c = CHR ''F'')
      | _ \<Rightarrow> False)"

text \<open>
  The blocks of the extracted text, from the texts of the pages: every page whose text is
  not blank, in page order, each under the marker with its 1-based page number.
\<close>

definition page_blocks :: "string list \<Rightarrow> string list" where
  "page_blocks texts =
     map (\<lambda>(i, t). ''--- Page '' @ str_nat (i + 1) @ '' ---'' @ [CHR 0x0A] @ t)
       (filter (\<lambda>(i, t). strip t \<noteq> []) (enumerate 0 texts))"

text \<open>The text fragments that the events of a response carry, concatenated in order.\<close>

fun part_text :: "part \<Rightarrow> string" where
  "part_text (Part None) = []"
| "part_text (Part (Some t)) = t"

fun event_text :: "event \<Rightarrow> string" where
  "event_text (Event (Some (Content (Some ps)))) = concat (map part_text ps)"
| "event_text ev = []"

definition all_text :: "event list \<Rightarrow> string" where
  "all_text evs = concat (map event_text evs)"

text \<open>The response stream that a call of \<open>get_pdf_summary\<close> on \<open>pdf_text\<close> receives.\<close>

definition stream_of :: "runtime \<Rightarrow> string \<Rightarrow> event list \<times> exn option" where
  "stream_of rt pdf_text = run_async rt user_id (session_id (uuid4 rt)) (prompt_text pdf_text)"

text \<open>
  The model runtime raises \<open>e\<close> during the call: from \<open>create_session\<close>, or from the response
  stream after events that the client has consumed.
\<close>

definition runtime_raises :: "runtime \<Rightarrow> string \<Rightarrow> exn \<Rightarrow> bool" where
  "runtime_raises rt pdf_text e =
     (case create_session rt app_name user_id (session_id (uuid4 rt)) of
        Some e' \<Rightarrow> e' = e
      | None \<Rightarrow>
          (case consume_events (fst (stream_of rt pdf_text)) [] of
             Inl e' \<Rightarrow> False
           | Inr r \<Rightarrow> snd (stream_of rt pdf_text) = Some e))"

text \<open>The world once the upload is staged at \<open>p\<close>.\<close>

definition staged :: "world \<Rightarrow> string \<Rightarrow> bytes \<Rightarrow> world" where
  "staged w p content = w\<lparr>files := (files w)(p \<mapsto> content), log := log w @ [CreateTemp p]\<rparr>"

section \<open>Example requests\<close>

definition cfg10 :: config where
  "cfg10 = \<lparr>MAX_FILE_SIZE_MB = 10\<rparr>"

definition world0 :: world where
  "world0 = \<lparr>files = Map.empty, log = []\<rparr>"

text \<open>A runtime that answers in two events with three parts, one of them without text.\<close>

definition ok_runtime :: runtime where
  "ok_runtime =
     \<lparr>uuid4 = 0x1b4e28ba2fa14d528f3a9c0d7e6b5a41,
      create_session = (\<lambda>a u s. None),
      run_async = (\<lambda>u s m.
        ([Event (Some (Content (Some [Part (Some ''A short '')]))),
          Event None,
          Event (Some (Content (Some [Part None, Part (Some ''summary.'')])))], None))\<rparr>"

text \<open>A three-page PDF whose second page is blank, and collaborators that all succeed.\<close>

definition ok_env :: env where
  "ok_env =
     \<lparr>tmp_create = Inr ''/tmp/tmpk3x9.pdf'', tmp_write = None, tmp_close = None,
      pdf_library = (\<lambda>b. Inr [Inr ''Intro'', Inr '' '', Inr ''End'']),
      model_runtime = ok_runtime, unlink_exn = None\<rparr>"

text \<open>A PDF of two image-only pages: no page has text.\<close>

definition textless_env :: env where
  "textless_env = ok_env\<lparr>pdf_library := (\<lambda>b. Inr [Inr [], Inr ('' '' @ [CHR 0x0A])])\<rparr>"

text \<open>The disk is full when the upload is written to the temporary file.\<close>

definition disk_full_env :: env where
  "disk_full_env = ok_env\<lparr>tmp_write := Some (Exn OSError ''[Errno 28] No space left on device'')\<rparr>"

text \<open>A runtime whose fragments begin and end with white space.\<close>

definition padded_runtime :: runtime where
  "padded_runtime = ok_runtime\<lparr>run_async := (\<lambda>u s m.
     ([Event (Some (Content (Some [Part (Some '' Hello''), Part (Some ('' world'' @ [CHR 0x0A]))])))],
      None))\<rparr>"

text \<open>A runtime that generates white space only.\<close>

definition blank_runtime :: runtime where
  "blank_runtime = ok_runtime\<lparr>run_async := (\<lambda>u s m.
     ([Event (Some (Content (Some [Part (Some ('' '' @ [CHR 0x0A]))]))), Event None], None))\<rparr>"

text \<open>An upload of one byte more than 10 MB.\<close>

definition big_upload :: bytes where
  "big_upload = replicate 10485761 0x20"

text \<open>A runtime whose response stream raises after its first event.\<close>

definition failing_runtime :: runtime where
  "failing_runtime = ok_runtime\<lparr>run_async := (\<lambda>u s m.
     ([Event (Some (Content (Some [Part (Some ''A short '')])))],
      Some (Exn RuntimeError ''litellm.APIConnectionError: connection refused'')))\<rparr>"

definition failing_env :: env where
  "failing_env = ok_env\<lparr>model_runtime := failing_runtime\<rparr>"

text \<open>A second call, whose \<open>uuid4()\<close> differs from the first call's after the eighth digit.\<close>

definition second_runtime :: runtime where
  "second_runtime = ok_runtime\<lparr>uuid4 := 0x1b4e28ba9c0d4e6b8a417f3a2fa15d52\<rparr>"


text \<open>An upload of 64 KiB, more than the buffer of the temporary file holds.\<close>

definition upload_64k :: bytes where
  "upload_64k = replicate 65536 0x25"

section \<open>Strings\<close>

lemma endswith_rev: "endswith s suf = (take (length suf) (rev s) = rev suf)"
  unfolding endswith_def
  by (metis length_rev length_take rev_rev_ident take_rev nat_le_linear take_all length_drop)

lemma of_char_lower_char:
  "(of_char (lower_char c) :: nat) =
     (let n = (of_char c :: nat)
      in if (65 \<le> n \<and> n \<le> 90) \<or> (192 \<le> n \<and> n \<le> 222 \<and> n \<noteq> 215) then n + 32 else n)"
  by (auto simp: lower_char_def Let_def)

lemma char_eq_of_char: "(c = d) = ((of_char c :: nat) = of_char d)"
  by auto

lemma lower_char_p: "lower_char c = CHR ''p'' \<longleftrightarrow> c = CHR ''p'' \<or> c = CHR ''P''"
  by (simp add: char_eq_of_char [of _ "CHR ''p''"] char_eq_of_char [of _ "CHR ''P''"]
      of_char_lower_char Let_def) arith

lemma lower_char_d: "lower_char c = CHR ''d'' \<longleftrightarrow> c = CHR ''d'' \<or> c = CHR ''D''"
  by (simp add: char_eq_of_char [of _ "CHR ''d''"] char_eq_of_char [of _ "CHR ''D''"]
      of_char_lower_char Let_def) arith

lemma lower_char_f: "lower_char c = CHR ''f'' \<longleftrightarrow> c = CHR ''f'' \<or> c = CHR ''F''"
  by (simp add: char_eq_of_char [of _ "CHR ''f''"] char_eq_of_char [of _ "CHR ''F''"]
      of_char_lower_char Let_def) arith

lemma lower_char_dot: "lower_char c = CHR ''.'' \<longleftrightarrow> c = CHR ''.''"
  by (simp add: char_eq_of_char [of _ "CHR ''.''"] of_char_lower_char Let_def)

lemma endswith_lower_pdf:
  "endswith (lower filename) ''.pdf'' = pdf_extension_ignoring_case filename"
  by (auto simp: endswith_rev lower_def rev_map pdf_extension_ignoring_case_def
      lower_char_p lower_char_d lower_char_f lower_char_dot split: list.splits)

lemma all_dropWhile: "(\<forall>x\<in>set (dropWhile P s). P x) = (\<forall>x\<in>set s. P x)"
  by (induction s) auto

lemma strip_empty_iff: "strip s = [] \<longleftrightarrow> (\<forall>c\<in>set s. isspace c)"
  by (simp add: strip_def all_dropWhile)

section \<open>The text extractor\<close>

lemma extract_text_Inl:
  "extract_text opened = Inl e \<Longrightarrow>
     (\<exists>m. e = Exn ValueError (''Invalid or corrupted PDF file: '' @ m)) \<or>
     (\<exists>m. e = Exn PlainException (''Error extracting text from PDF: '' @ m))"
  by (auto simp: extract_text_def split: sum.splits if_splits)

lemma extract_text_Inr: "extract_text opened = Inr t \<Longrightarrow> \<exists>doc. opened = Inr doc"
  by (auto simp: extract_text_def extract_text_try_def split: sum.splits if_splits)

lemma get_page_count_Inl:
  "get_page_count opened = Inl e \<Longrightarrow> \<exists>m. e = Exn PlainException m"
  by (auto simp: get_page_count_def split: sum.splits)

text \<open>
  C2. A PDF whose pages are all image-only is meant to be rejected with status 400. The
  \<open>ValueError\<close> that \<open>extract_text\<close> raises for it is raised inside its own \<open>try\<close>, whose
  \<open>except Exception\<close> turns it into a plain \<open>Exception\<close>, so the endpoint answers 500.
\<close>

theorem textless_pdf_answered_500:
  "fst (upload_pdf cfg10 textless_env ''scan.pdf'' [0x25, 0x50, 0x44, 0x46] world0)
     = Inl (HTTPException 500
         ''Error processing PDF: Error extracting text from PDF: No text content found in PDF'')"
  by code_simp

section \<open>The summarization client\<close>

lemma add_parts_eq: "add_parts ps r = r @ concat (map part_text ps)"
  by (induction ps r rule: add_parts.induct) auto

lemma consume_events_Inr: "consume_events evs r = Inr r' \<Longrightarrow> r' = r @ all_text evs"
  by (induction evs r rule: consume_events.induct) (auto simp: all_text_def add_parts_eq)

lemma run_loop_Inr: "run_loop stream = Inr r \<Longrightarrow> r = all_text (fst stream) \<and> snd stream = None"
  by (auto simp: run_loop_def split: sum.splits option.splits dest: consume_events_Inr)

lemma get_pdf_summary_try_Inr:
  "fst (get_pdf_summary_try rt pdf_text) = Inr s \<Longrightarrow>
     s = strip (all_text (fst (stream_of rt pdf_text))) \<and> s \<noteq> []"
  by (auto simp: get_pdf_summary_try_def stream_of_def Let_def
      split: option.splits sum.splits if_splits dest: run_loop_Inr)

lemma get_pdf_summary_Inr:
  "fst (get_pdf_summary rt pdf_text) = Inr s \<Longrightarrow> fst (get_pdf_summary_try rt pdf_text) = Inr s"
  by (auto simp: get_pdf_summary_def split: prod.splits sum.splits)

lemma get_pdf_summary_Inl:
  "fst (get_pdf_summary_try rt pdf_text) = Inl e \<Longrightarrow>
     fst (get_pdf_summary rt pdf_text) =
       Inl (Exn PlainException
         (''Google ADK failed to generate summary. Error: '' @ str_exn e
          @ ''. This helps identify ADK configuration or integration issues.''))"
  by (auto simp: get_pdf_summary_def split: prod.splits sum.splits)

lemma get_pdf_summary_try_blank:
  "create_session rt app_name user_id (session_id (uuid4 rt)) = None \<Longrightarrow>
   run_loop (stream_of rt pdf_text) = Inr response_text \<Longrightarrow> strip response_text = [] \<Longrightarrow>
   fst (get_pdf_summary_try rt pdf_text) = Inl (Exn PlainException
     ''ADK did not generate any response. Check if Ollama is running and the model is available.'')"
  by (simp add: get_pdf_summary_try_def stream_of_def Let_def)

lemma summary_of_try:
  assumes "fst (get_pdf_summary rt pdf_text) = Inr s"
  shows "s = strip (all_text (fst (stream_of rt pdf_text))) \<and> s \<noteq> []"
  using get_pdf_summary_try_Inr [OF get_pdf_summary_Inr [OF assms]] .

text \<open>
  C8 (as amended). The summary that \<open>get_pdf_summary\<close> returns is the concatenation of the
  text fragments of the response events, in event order and within an event in part order,
  with leading and trailing white space removed.
\<close>

theorem summary_is_trimmed_concatenation:
  assumes "fst (get_pdf_summary rt pdf_text) = Inr s"
  shows "s = strip (all_text (fst (stream_of rt pdf_text)))"
  using get_pdf_summary_try_Inr [OF get_pdf_summary_Inr [OF assms]] by simp

theorem summary_is_trimmed_concatenation_witness:
  "fst (get_pdf_summary ok_runtime ''Intro'') = Inr ''A short summary.''
   \<and> ''A short summary.'' = strip (all_text (fst (stream_of ok_runtime ''Intro'')))"
proof -
  have h: "fst (get_pdf_summary ok_runtime ''Intro'') = Inr ''A short summary.''"
    by code_simp
  from summary_is_trimmed_concatenation [OF h] h show ?thesis by simp
qed

text \<open>
  C8 as stated fails: the fragments \<open>'' Hello''\<close> and \<open>'' world\n''\<close> concatenate to
  \<open>'' Hello world\n''\<close>, and the summary returned is \<open>''Hello world''\<close>.
\<close>

theorem summary_not_plain_concatenation:
  "fst (get_pdf_summary padded_runtime ''Intro'') = Inr ''Hello world''
   \<and> all_text (fst (stream_of padded_runtime ''Intro'')) = '' Hello world'' @ [CHR 0x0A]"
  by code_simp

section \<open>The request pipeline\<close>

lemma process_staged_files: "files (snd (process_staged env filename p w)) = files w"
  by (simp add: process_staged_def Let_def split: sum.splits prod.splits)

lemma fitz_open_staged: "files w p = Some b \<Longrightarrow> fitz_open env w p = pdf_library env b"
  by (simp add: fitz_open_def)

lemma fitz_open_log: "fitz_open env (w\<lparr>log := l\<rparr>) p = fitz_open env w p"
  by (simp add: fitz_open_def)

lemma process_staged_Inr:
  assumes "fst (process_staged env filename p w) = Inr r" and "files w p = Some b"
  shows "\<exists>doc pdf_text s. pdf_library env b = Inr doc \<and> extract_text (Inr doc) = Inr pdf_text
           \<and> fst (get_pdf_summary (model_runtime env) pdf_text) = Inr s
           \<and> r = \<lparr>summary = s, page_count = length doc, file_name = filename\<rparr>"
  using assms
  by (auto simp: process_staged_def Let_def fitz_open_log fitz_open_staged get_page_count_def
      split: sum.splits prod.splits dest!: extract_text_Inr)

lemma cleanup_fst_Inr:
  "fst (cleanup env (res, tf, tp, w)) = Inr r \<Longrightarrow> res = Inr r"
  by (auto simp: cleanup_def split: option.splits if_splits)

lemma stage_upload_ok:
  "tmp_create env = Inr p \<Longrightarrow> tmp_write env = None \<Longrightarrow> tmp_close env = None \<Longrightarrow>
     stage_upload env content w = Inr (p, staged w p content)"
  by (simp add: stage_upload_def staged_def)

lemma stage_upload_Inr:
  "stage_upload env content w = Inr (p, w1) \<Longrightarrow>
     tmp_create env = Inr p \<and> tmp_write env = None \<and> tmp_close env = None
     \<and> w1 = staged w p content"
  by (auto simp: stage_upload_def staged_def Let_def split: sum.splits option.splits)

lemma upload_try_Inr:
  assumes "upload_try env filename content w = (Inr r, tf, tp, w')"
  shows "\<exists>p. tmp_create env = Inr p \<and> tmp_write env = None \<and> tmp_close env = None \<and>
     fst (process_staged env filename p (staged w p content)) = Inr r"
  using assms
  by (auto simp: upload_try_def split: sum.splits prod.splits dest!: stage_upload_Inr)

lemma upload_pdf_Inr:
  assumes "fst (upload_pdf cfg env filename content w) = Inr r"
  shows "\<exists>doc pdf_text. pdf_library env content = Inr doc \<and> extract_text (Inr doc) = Inr pdf_text
      \<and> summary r \<noteq> []
      \<and> r = \<lparr>summary = strip (all_text (fst (stream_of (model_runtime env) pdf_text))),
              page_count = length doc, file_name = filename\<rparr>"
proof -
  obtain res tf tp w' where t: "upload_try env filename content w = (res, tf, tp, w')"
    by (cases "upload_try env filename content w") auto
  from assms have "fst (cleanup env (upload_try env filename content w)) = Inr r"
    by (auto simp: upload_pdf_def split: if_splits)
  with t have "res = Inr r" using cleanup_fst_Inr by metis
  with t obtain p where
    "fst (process_staged env filename p (staged w p content)) = Inr r"
    using upload_try_Inr by blast
  moreover have "files (staged w p content) p = Some content"
    by (simp add: staged_def)
  ultimately obtain doc pdf_text s where d: "pdf_library env content = Inr doc"
    "extract_text (Inr doc) = Inr pdf_text"
    "fst (get_pdf_summary (model_runtime env) pdf_text) = Inr s"
    "r = \<lparr>summary = s, page_count = length doc, file_name = filename\<rparr>"
    using process_staged_Inr by blast
  from summary_of_try [OF d(3)] d show ?thesis by auto
qed

lemma process_staged_not_pdf_only:
  "fst (process_staged env filename p w) \<noteq> Inl (HTTPException 400 ''Only PDF files are allowed'')"
  by (auto simp: process_staged_def Let_def pdf_error_def
      split: sum.splits prod.splits dest!: extract_text_Inl get_page_count_Inl)

lemma upload_try_not_pdf_only:
  "fst (upload_try env filename content w) \<noteq> Inl (HTTPException 400 ''Only PDF files are allowed'')"
  using process_staged_not_pdf_only
  by (auto simp: upload_try_def split: sum.splits prod.splits) (metis fst_conv)

lemma cleanup_fst:
  "fst (cleanup env tried) = fst tried \<or>
   fst (cleanup env tried) = Inl (Uncaught (Exn UnboundLocalError unbound_temp_file_path))"
  by (auto simp: cleanup_def split: prod.splits option.splits)

lemma upload_pdf_extension_accepted:
  assumes "endswith (lower filename) ''.pdf''"
  shows "fst (upload_pdf cfg env filename content w)
           \<noteq> Inl (HTTPException 400 ''Only PDF files are allowed'')"
  using assms cleanup_fst [of env "upload_try env filename content w"]
    upload_try_not_pdf_only [of env filename content w]
  by (auto simp: upload_pdf_def)

text \<open>
  C10. The extension check ignores case: the handler rejects an upload with the PDF-only
  message exactly when the last four characters of the file name are not a dot and the
  letters p, d, f in either case; the rejection has status 400 and leaves the world as it
  was.
\<close>

theorem extension_check_ignores_case:
  "endswith (lower filename) ''.pdf'' = pdf_extension_ignoring_case filename
   \<and> (pdf_extension_ignoring_case filename \<longrightarrow>
        fst (upload_pdf cfg env filename content w)
          \<noteq> Inl (HTTPException 400 ''Only PDF files are allowed''))
   \<and> (\<not> pdf_extension_ignoring_case filename \<longrightarrow>
        upload_pdf cfg env filename content w
          = (Inl (HTTPException 400 ''Only PDF files are allowed''), w))"
  using upload_pdf_extension_accepted [of filename cfg env content w]
  by (auto simp: endswith_lower_pdf upload_pdf_def)

theorem extension_check_ignores_case_witness:
  "pdf_extension_ignoring_case ''doc.PDF'' \<and> pdf_extension_ignoring_case ''doc.Pdf''
   \<and> fst (upload_pdf cfg10 ok_env ''doc.PDF'' [0x25] world0)
        \<noteq> Inl (HTTPException 400 ''Only PDF files are allowed'')
   \<and> fst (upload_pdf cfg10 ok_env ''doc.Pdf'' [0x25] world0)
        \<noteq> Inl (HTTPException 400 ''Only PDF files are allowed'')
   \<and> \<not> pdf_extension_ignoring_case ''doc.pdf.txt''
   \<and> upload_pdf cfg10 ok_env ''doc.pdf.txt'' [0x25] world0
        = (Inl (HTTPException 400 ''Only PDF files are allowed''), world0)"
proof -
  have a: "pdf_extension_ignoring_case ''doc.PDF''" by (simp add: pdf_extension_ignoring_case_def)
  have b: "pdf_extension_ignoring_case ''doc.Pdf''" by (simp add: pdf_extension_ignoring_case_def)
  have c: "\<not> pdf_extension_ignoring_case ''doc.pdf.txt''"
    by (simp add: pdf_extension_ignoring_case_def)
  show ?thesis
    using a b c
      extension_check_ignores_case [of "''doc.PDF''" cfg10 ok_env "[0x25]" world0]
      extension_check_ignores_case [of "''doc.Pdf''" cfg10 ok_env "[0x25]" world0]
      extension_check_ignores_case [of "''doc.pdf.txt''" cfg10 ok_env "[0x25]" world0]
    by blast
qed

text \<open>
  C5. A successful response consists of the summary, the page count and the file name as
  uploaded, and the page count is the number of pages of the uploaded PDF, pages without
  text included.
\<close>

theorem success_response_fields:
  assumes "fst (upload_pdf cfg env filename content w) = Inr r"
  shows "\<exists>doc pdf_text. pdf_library env content = Inr doc \<and> extract_text (Inr doc) = Inr pdf_text
      \<and> r = \<lparr>summary = strip (all_text (fst (stream_of (model_runtime env) pdf_text))),
              page_count = length doc, file_name = filename\<rparr>"
  using upload_pdf_Inr [OF assms] by blast

theorem success_response_fields_witness:
  "fst (upload_pdf cfg10 ok_env ''Report.PDF'' [0x25, 0x50, 0x44, 0x46] world0)
     = Inr \<lparr>summary = ''A short summary.'', page_count = 3, file_name = ''Report.PDF''\<rparr>
   \<and> (\<exists>doc pdf_text. pdf_library ok_env [0x25, 0x50, 0x44, 0x46] = Inr doc
        \<and> extract_text (Inr doc) = Inr pdf_text
        \<and> \<lparr>summary = ''A short summary.'', page_count = 3, file_name = ''Report.PDF''\<rparr>
            = \<lparr>summary = strip (all_text (fst (stream_of (model_runtime ok_env) pdf_text))),
               page_count = length doc, file_name = ''Report.PDF''\<rparr>)"
proof -
  have h: "fst (upload_pdf cfg10 ok_env ''Report.PDF'' [0x25, 0x50, 0x44, 0x46] world0)
     = Inr \<lparr>summary = ''A short summary.'', page_count = 3, file_name = ''Report.PDF''\<rparr>"
    by code_simp
  from success_response_fields [OF h] h show ?thesis by blast
qed

text \<open>
  C7. When the text generated by the model is empty or white space only, \<open>get_pdf_summary\<close>
  raises; when nothing else failed the exception carries the message of the empty
  generation. A successful response of the endpoint never has an empty summary.
\<close>

theorem blank_output_is_failure:
  "(strip (all_text (fst (stream_of rt pdf_text))) = [] \<longrightarrow>
      (\<exists>m. fst (get_pdf_summary rt pdf_text) = Inl (Exn PlainException m)))
   \<and> (create_session rt app_name user_id (session_id (uuid4 rt)) = None
        \<and> run_loop (stream_of rt pdf_text) = Inr response_text \<and> strip response_text = [] \<longrightarrow>
      fst (get_pdf_summary rt pdf_text) = Inl (Exn PlainException
        (''Google ADK failed to generate summary. Error: ''
         @ ''ADK did not generate any response. Check if Ollama is running and the model is available.''
         @ ''. This helps identify ADK configuration or integration issues.'')))
   \<and> (fst (upload_pdf cfg env filename content w) = Inr r \<longrightarrow> summary r \<noteq> [])"
proof -
  have a: "strip (all_text (fst (stream_of rt pdf_text))) = [] \<longrightarrow>
      (\<exists>m. fst (get_pdf_summary rt pdf_text) = Inl (Exn PlainException m))"
  proof (cases "fst (get_pdf_summary_try rt pdf_text)")
    case (Inl e)
    then show ?thesis using get_pdf_summary_Inl by blast
  next
    case (Inr s)
    from get_pdf_summary_try_Inr [OF Inr] show ?thesis by auto
  qed
  have b: "create_session rt app_name user_id (session_id (uuid4 rt)) = None
        \<and> run_loop (stream_of rt pdf_text) = Inr response_text \<and> strip response_text = [] \<longrightarrow>
      fst (get_pdf_summary rt pdf_text) = Inl (Exn PlainException
        (''Google ADK failed to generate summary. Error: ''
         @ ''ADK did not generate any response. Check if Ollama is running and the model is available.''
         @ ''. This helps identify ADK configuration or integration issues.''))"
    using get_pdf_summary_Inl [OF get_pdf_summary_try_blank, of rt pdf_text response_text]
    by simp
  have c: "fst (upload_pdf cfg env filename content w) = Inr r \<longrightarrow> summary r \<noteq> []"
    using upload_pdf_Inr [of cfg env filename content w r] by blast
  from a b c show ?thesis by blast
qed

theorem blank_output_is_failure_witness:
  "strip (all_text (fst (stream_of blank_runtime ''Intro''))) = []
   \<and> create_session blank_runtime app_name user_id (session_id (uuid4 blank_runtime)) = None
   \<and> run_loop (stream_of blank_runtime ''Intro'') = Inr ('' '' @ [CHR 0x0A])
   \<and> fst (get_pdf_summary blank_runtime ''Intro'') = Inl (Exn PlainException
        (''Google ADK failed to generate summary. Error: ''
         @ ''ADK did not generate any response. Check if Ollama is running and the model is available.''
         @ ''. This helps identify ADK configuration or integration issues.''))
   \<and> fst (upload_pdf cfg10 ok_env ''Report.PDF'' [0x25, 0x50, 0x44, 0x46] world0)
       = Inr \<lparr>summary = ''A short summary.'', page_count = 3, file_name = ''Report.PDF''\<rparr>
   \<and> summary \<lparr>summary = ''A short summary.'', page_count = 3, file_name = ''Report.PDF''\<rparr> \<noteq> []"
proof -
  have h1: "strip (all_text (fst (stream_of blank_runtime ''Intro''))) = []" by code_simp
  have h2: "create_session blank_runtime app_name user_id (session_id (uuid4 blank_runtime)) = None"
    by (simp add: blank_runtime_def ok_runtime_def)
  have h3: "run_loop (stream_of blank_runtime ''Intro'') = Inr ('' '' @ [CHR 0x0A])" by code_simp
  have h4: "strip ('' '' @ [CHR 0x0A]) = []" by code_simp
  have h5: "fst (upload_pdf cfg10 ok_env ''Report.PDF'' [0x25, 0x50, 0x44, 0x46] world0)
       = Inr \<lparr>summary = ''A short summary.'', page_count = 3, file_name = ''Report.PDF''\<rparr>"
    by code_simp
  show ?thesis
    using h1 h2 h3 h4 h5
      blank_output_is_failure [of blank_runtime "''Intro''" "'' '' @ [CHR 0x0A]" cfg10 ok_env
        "''Report.PDF''" "[0x25, 0x50, 0x44, 0x46]" world0
        "\<lparr>summary = ''A short summary.'', page_count = 3, file_name = ''Report.PDF''\<rparr>"]
    by blast
qed

text \<open>
  C3. An upload with a file name without the extension, with no bytes or with more bytes
  than the configured maximum is rejected with status 400 and the reason of the first
  check that fails, in the order extension, size, emptiness; the size reason names the
  configured limit. The world is left as it was: no temporary file is created and neither
  the PDF library nor the model runtime is called.
\<close>

theorem validation_gate_rejects:
  assumes "\<not> endswith (lower filename) ''.pdf'' \<or> length content = 0
           \<or> int (length content) > MAX_FILE_SIZE_BYTES cfg"
  shows "upload_pdf cfg env filename content w =
     (Inl (HTTPException 400
        (if \<not> endswith (lower filename) ''.pdf'' then ''Only PDF files are allowed''
         else if int (length content) > MAX_FILE_SIZE_BYTES cfg
         then ''File size exceeds maximum allowed size of '' @ str_int (MAX_FILE_SIZE_MB cfg)
              @ ''MB''
         else ''Uploaded file is empty'')), w)
     \<and> status_code (fst (upload_pdf cfg env filename content w)) = 400
     \<and> files (snd (upload_pdf cfg env filename content w)) = files w
     \<and> log (snd (upload_pdf cfg env filename content w)) = log w"
  using assms by (auto simp: upload_pdf_def)

theorem validation_gate_rejects_witness:
  "upload_pdf cfg10 ok_env ''notes.txt'' [0x25] world0
     = (Inl (HTTPException 400 ''Only PDF files are allowed''), world0)
   \<and> upload_pdf cfg10 ok_env ''empty.pdf'' [] world0
     = (Inl (HTTPException 400 ''Uploaded file is empty''), world0)
   \<and> upload_pdf cfg10 ok_env ''big.pdf'' big_upload world0
     = (Inl (HTTPException 400 ''File size exceeds maximum allowed size of 10MB''), world0)"
proof -
  have e1: "\<not> endswith (lower ''notes.txt'') ''.pdf''" by code_simp
  have e2: "endswith (lower ''empty.pdf'') ''.pdf''" by code_simp
  have e3: "endswith (lower ''big.pdf'') ''.pdf''" by code_simp
  have s2: "\<not> int (length ([] :: bytes)) > MAX_FILE_SIZE_BYTES cfg10"
    by (simp add: MAX_FILE_SIZE_BYTES_def cfg10_def)
  have s3: "int (length big_upload) > MAX_FILE_SIZE_BYTES cfg10"
    by (simp add: MAX_FILE_SIZE_BYTES_def cfg10_def big_upload_def)
  have m: "str_int (MAX_FILE_SIZE_MB cfg10) = ''10''" by code_simp
  show ?thesis
    using e1 e2 e3 s2 s3 m
      validation_gate_rejects [of "''notes.txt''" "[0x25]" cfg10 ok_env world0]
      validation_gate_rejects [of "''empty.pdf''" "[]" cfg10 ok_env world0]
      validation_gate_rejects [of "''big.pdf''" big_upload cfg10 ok_env world0]
    by simp
qed

lemma runtime_raises_try:
  "runtime_raises rt pdf_text e \<Longrightarrow> fst (get_pdf_summary_try rt pdf_text) = Inl e"
  by (auto simp: runtime_raises_def get_pdf_summary_try_def run_loop_def stream_of_def Let_def
      split: option.splits sum.splits)

lemma cleanup_staged:
  assumes "files w1 p \<noteq> None"
  shows "cleanup env (res, True, Some p, w1) =
     (res, w1\<lparr>files := (if unlink_exn env = None then (files w1)(p := None) else files w1),
             log := log w1 @ [Unlink p]\<rparr>)"
  using assms by (auto simp: cleanup_def split: option.splits)

lemma upload_pdf_staged:
  assumes "endswith (lower filename) ''.pdf''"
    and "\<not> int (length content) > MAX_FILE_SIZE_BYTES cfg"
    and "length content \<noteq> 0"
    and "tmp_create env = Inr p" and "tmp_write env = None" and "tmp_close env = None"
    and "process_staged env filename p (staged w p content) = (res, w1)"
  shows "upload_pdf cfg env filename content w =
     (res, w1\<lparr>files := (if unlink_exn env = None then (files w1)(p := None) else files w1),
             log := log w1 @ [Unlink p]\<rparr>)"
proof -
  have "files w1 = files (staged w p content)"
    using process_staged_files [of env filename p "staged w p content"] assms(7) by simp
  then have "files w1 p \<noteq> None" by (simp add: staged_def)
  then have c: "cleanup env (res, True, Some p, w1) =
     (res, w1\<lparr>files := (if unlink_exn env = None then (files w1)(p := None) else files w1),
             log := log w1 @ [Unlink p]\<rparr>)"
    by (rule cleanup_staged)
  have s: "stage_upload env content w = Inr (p, staged w p content)"
    using assms(4-6) by (rule stage_upload_ok)
  have t: "upload_try env filename content w = (res, True, Some p, w1)"
    by (simp add: upload_try_def s assms(7))
  show ?thesis
    using assms(1-3) by (simp add: upload_pdf_def t c)
qed

lemma process_staged_summary_failure:
  assumes "files w p = Some b" and "extract_text (pdf_library env b) = Inr pdf_text"
    and "fst (get_pdf_summary (model_runtime env) pdf_text) = Inl e"
  shows "fst (process_staged env filename p w) =
     Inl (HTTPException 500 (''Error generating summary: '' @ str_exn e))"
proof -
  obtain doc where d: "pdf_library env b = Inr doc" using assms(2) extract_text_Inr by blast
  obtain effs where g: "get_pdf_summary (model_runtime env) pdf_text = (Inl e, effs)"
    using assms(3) by (cases "get_pdf_summary (model_runtime env) pdf_text") auto
  have o: "fitz_open env w p = Inr doc" using assms(1) d by (simp add: fitz_open_staged)
  have x: "extract_text (Inr doc) = Inr pdf_text" using assms(2) d by simp
  show ?thesis
    by (simp add: process_staged_def Let_def fitz_open_log o x g get_page_count_def)
qed

lemma sublist_mid: "sublist m (a @ m @ b)"
  by (auto simp: sublist_def)

text \<open>
  C6. When the model runtime raises during the summarization of an upload that was staged
  and extracted, \<open>get_pdf_summary\<close> raises an exception whose message contains the text of
  the runtime's error, the endpoint answers 500 with a detail that contains it, and the
  handler still calls \<open>os.unlink\<close> on the temporary file, which is gone afterwards unless
  \<open>os.unlink\<close> itself raised.
\<close>

theorem runtime_failure_reported:
  assumes "endswith (lower filename) ''.pdf''"
    and "\<not> int (length content) > MAX_FILE_SIZE_BYTES cfg"
    and "length content \<noteq> 0"
    and "tmp_create env = Inr p" and "tmp_write env = None" and "tmp_close env = None"
    and "extract_text (pdf_library env content) = Inr pdf_text"
    and "runtime_raises (model_runtime env) pdf_text e"
  shows "\<exists>m d w'.
      m = ''Google ADK failed to generate summary. Error: '' @ str_exn e
          @ ''. This helps identify ADK configuration or integration issues.''
    \<and> d = ''Error generating summary: '' @ m
    \<and> fst (get_pdf_summary (model_runtime env) pdf_text) = Inl (Exn PlainException m)
    \<and> sublist (str_exn e) m
    \<and> upload_pdf cfg env filename content w = (Inl (HTTPException 500 d), w')
    \<and> status_code (fst (upload_pdf cfg env filename content w)) = 500
    \<and> sublist (str_exn e) d
    \<and> Unlink p \<in> set (log w')
    \<and> (unlink_exn env = None \<longrightarrow> files w' p = None)"
proof -
  define m where "m = ''Google ADK failed to generate summary. Error: '' @ str_exn e
          @ ''. This helps identify ADK configuration or integration issues.''"
  define d where "d = ''Error generating summary: '' @ m"
  have g: "fst (get_pdf_summary (model_runtime env) pdf_text) = Inl (Exn PlainException m)"
    unfolding m_def by (rule get_pdf_summary_Inl [OF runtime_raises_try [OF assms(8)]])
  obtain res w1 where ps: "process_staged env filename p (staged w p content) = (res, w1)"
    by (cases "process_staged env filename p (staged w p content)") auto
  have f: "files (staged w p content) p = Some content" by (simp add: staged_def)
  have "fst (process_staged env filename p (staged w p content))
          = Inl (HTTPException 500 (''Error generating summary: '' @ str_exn (Exn PlainException m)))"
    using f assms(7) g by (rule process_staged_summary_failure)
  with ps have res: "res = Inl (HTTPException 500 d)" by (simp add: d_def)
  define w' where "w' = w1\<lparr>files := (if unlink_exn env = None then (files w1)(p := None) else files w1),
             log := log w1 @ [Unlink p]\<rparr>"
  have up: "upload_pdf cfg env filename content w = (Inl (HTTPException 500 d), w')"
    using upload_pdf_staged [OF assms(1-6) ps] res by (simp add: w'_def)
  have st: "status_code (fst (upload_pdf cfg env filename content w)) = 500"
    by (simp add: up)
  have s1: "sublist (str_exn e) m" unfolding m_def by (rule sublist_mid)
  have "d = (''Error generating summary: '' @ ''Google ADK failed to generate summary. Error: '')
            @ str_exn e @ ''. This helps identify ADK configuration or integration issues.''"
    by (simp add: d_def m_def)
  then have s2: "sublist (str_exn e) d" using sublist_mid by metis
  have l: "Unlink p \<in> set (log w')" by (simp add: w'_def)
  have r: "unlink_exn env = None \<longrightarrow> files w' p = None" by (simp add: w'_def)
  show ?thesis
    apply (rule exI [of _ m])
    apply (rule exI [of _ d])
    apply (rule exI [of _ w'])
    using g up st s1 s2 l r m_def d_def by simp
qed

theorem runtime_failure_reported_witness:
  "endswith (lower ''report.pdf'') ''.pdf''
   \<and> \<not> int (length [0x25, 0x50, 0x44, 0x46 :: 8 word]) > MAX_FILE_SIZE_BYTES cfg10
   \<and> tmp_create failing_env = Inr ''/tmp/tmpk3x9.pdf''
   \<and> runtime_raises (model_runtime failing_env)
        (''--- Page 1 ---'' @ [CHR 0x0A] @ ''Intro'' @ [CHR 0x0A, CHR 0x0A]
         @ ''--- Page 3 ---'' @ [CHR 0x0A] @ ''End'')
        (Exn RuntimeError ''litellm.APIConnectionError: connection refused'')
   \<and> (\<exists>m d w'.
      m = ''Google ADK failed to generate summary. Error: ''
          @ str_exn (Exn RuntimeError ''litellm.APIConnectionError: connection refused'')
          @ ''. This helps identify ADK configuration or integration issues.''
    \<and> d = ''Error generating summary: '' @ m
    \<and> fst (get_pdf_summary (model_runtime failing_env)
        (''--- Page 1 ---'' @ [CHR 0x0A] @ ''Intro'' @ [CHR 0x0A, CHR 0x0A]
         @ ''--- Page 3 ---'' @ [CHR 0x0A] @ ''End'')) = Inl (Exn PlainException m)
    \<and> sublist (str_exn (Exn RuntimeError ''litellm.APIConnectionError: connection refused'')) m
    \<and> upload_pdf cfg10 failing_env ''report.pdf'' [0x25, 0x50, 0x44, 0x46] world0
         = (Inl (HTTPException 500 d), w')
    \<and> status_code (fst (upload_pdf cfg10 failing_env ''report.pdf'' [0x25, 0x50, 0x44, 0x46] world0))
         = 500
    \<and> sublist (str_exn (Exn RuntimeError ''litellm.APIConnectionError: connection refused'')) d
    \<and> Unlink ''/tmp/tmpk3x9.pdf'' \<in> set (log w')
    \<and> unlink_exn failing_env = None \<and> files w' ''/tmp/tmpk3x9.pdf'' = None)"
proof -
  have h1: "endswith (lower ''report.pdf'') ''.pdf''" by code_simp
  have h2: "\<not> int (length [0x25, 0x50, 0x44, 0x46 :: 8 word]) > MAX_FILE_SIZE_BYTES cfg10"
    by (simp add: MAX_FILE_SIZE_BYTES_def cfg10_def)
  have h3: "length [0x25, 0x50, 0x44, 0x46 :: 8 word] \<noteq> 0" by simp
  have h4: "tmp_create failing_env = Inr ''/tmp/tmpk3x9.pdf''"
    by (simp add: failing_env_def ok_env_def)
  have h5: "tmp_write failing_env = None" by (simp add: failing_env_def ok_env_def)
  have h6: "tmp_close failing_env = None" by (simp add: failing_env_def ok_env_def)
  have h7: "extract_text (pdf_library failing_env [0x25, 0x50, 0x44, 0x46])
      = Inr (''--- Page 1 ---'' @ [CHR 0x0A] @ ''Intro'' @ [CHR 0x0A, CHR 0x0A]
         @ ''--- Page 3 ---'' @ [CHR 0x0A] @ ''End'')"
    by code_simp
  have h8: "runtime_raises (model_runtime failing_env)
        (''--- Page 1 ---'' @ [CHR 0x0A] @ ''Intro'' @ [CHR 0x0A, CHR 0x0A]
         @ ''--- Page 3 ---'' @ [CHR 0x0A] @ ''End'')
        (Exn RuntimeError ''litellm.APIConnectionError: connection refused'')"
    by code_simp
  have h9: "unlink_exn failing_env = None" by (simp add: failing_env_def ok_env_def)
  from runtime_failure_reported [OF h1 h2 h3 h4 h5 h6 h7 h8, of world0] h1 h2 h4 h8 h9
  show ?thesis by blast
qed

section \<open>Page markers\<close>

lemma extract_pages_blocks:
  "extract_pages (map Inr texts) n acc =
     Inr (acc @ map (\<lambda>(i, t). page_marker i t)
                  (filter (\<lambda>(i, t). strip t \<noteq> []) (enumerate n texts)))"
  by (induction texts arbitrary: n acc) auto

lemma page_blocks_marker: "page_blocks texts =
   map (\<lambda>(i, t). page_marker i t) (filter (\<lambda>(i, t). strip t \<noteq> []) (enumerate 0 texts))"
  by (simp add: page_blocks_def page_marker_def)

lemma filter_enumerate_empty:
  "filter (\<lambda>(i, t). P t) (enumerate n ts) = [] \<longleftrightarrow> (\<forall>t\<in>set ts. \<not> P t)"
  by (induction ts arbitrary: n) auto

lemma filter_enumerate_all:
  "(\<forall>t\<in>set ts. P t) \<Longrightarrow> filter (\<lambda>(i, t). P t) (enumerate n ts) = enumerate n ts"
  by (induction ts arbitrary: n) auto

lemma page_blocks_empty: "page_blocks texts = [] \<longleftrightarrow> (\<forall>t\<in>set texts. strip t = [])"
  using filter_enumerate_empty [of "\<lambda>t. strip t \<noteq> []" 0 texts]
  by (simp add: page_blocks_def)

text \<open>
  C4. For a PDF that opens and whose pages all give their text, at least one of them not
  blank, \<open>extract_text\<close> returns the blocks of the non-blank pages in page order, each
  the marker \<open>--- Page N ---\<close> with the 1-based page number, a newline and the page's text,
  joined by a blank line. When no page is blank there are as many blocks as pages, and
  block \<open>k\<close> carries the marker of page \<open>k + 1\<close> and the text of that page.
\<close>

theorem extract_text_page_markers:
  assumes "\<exists>t\<in>set texts. strip t \<noteq> []"
  shows "extract_text (Inr (map Inr texts)) = Inr (join [CHR 0x0A, CHR 0x0A] (page_blocks texts))
    \<and> get_page_count (Inr (map Inr texts)) = Inr (length texts)
    \<and> ((\<forall>t\<in>set texts. strip t \<noteq> []) \<longrightarrow>
         length (page_blocks texts) = length texts
         \<and> (\<forall>k<length texts. page_blocks texts ! k
               = ''--- Page '' @ str_nat (k + 1) @ '' ---'' @ [CHR 0x0A] @ texts ! k))"
proof -
  have ne: "page_blocks texts \<noteq> []" using assms page_blocks_empty by blast
  have "extract_pages (map Inr texts) 0 [] = Inr (page_blocks texts)"
    by (simp add: extract_pages_blocks page_blocks_marker)
  then have a: "extract_text (Inr (map Inr texts))
      = Inr (join [CHR 0x0A, CHR 0x0A] (page_blocks texts))"
    using ne by (simp add: extract_text_def extract_text_try_def)
  have b: "get_page_count (Inr (map Inr texts)) = Inr (length texts)"
    by (simp add: get_page_count_def)
  have c: "(\<forall>t\<in>set texts. strip t \<noteq> []) \<longrightarrow>
         length (page_blocks texts) = length texts
         \<and> (\<forall>k<length texts. page_blocks texts ! k
               = ''--- Page '' @ str_nat (k + 1) @ '' ---'' @ [CHR 0x0A] @ texts ! k)"
  proof
    assume all: "\<forall>t\<in>set texts. strip t \<noteq> []"
    have e: "page_blocks texts
        = map (\<lambda>(i, t). ''--- Page '' @ str_nat (i + 1) @ '' ---'' @ [CHR 0x0A] @ t)
            (enumerate 0 texts)"
      unfolding page_blocks_def
      using filter_enumerate_all [of texts "\<lambda>t. strip t \<noteq> []" 0] all by simp
    show "length (page_blocks texts) = length texts
         \<and> (\<forall>k<length texts. page_blocks texts ! k
               = ''--- Page '' @ str_nat (k + 1) @ '' ---'' @ [CHR 0x0A] @ texts ! k)"
      unfolding e by (simp add: nth_enumerate_eq)
  qed
  from a b c show ?thesis by blast
qed

theorem extract_text_page_markers_witness:
  "strip ''Intro'' \<noteq> [] \<and> strip ''Body'' \<noteq> [] \<and> strip ''End'' \<noteq> []
   \<and> extract_text (Inr (map Inr [''Intro'', ''Body'', ''End'']))
       = Inr (''--- Page 1 ---'' @ [CHR 0x0A] @ ''Intro'' @ [CHR 0x0A, CHR 0x0A]
              @ ''--- Page 2 ---'' @ [CHR 0x0A] @ ''Body'' @ [CHR 0x0A, CHR 0x0A]
              @ ''--- Page 3 ---'' @ [CHR 0x0A] @ ''End'')
   \<and> get_page_count (Inr (map Inr [''Intro'', ''Body'', ''End''])) = Inr 3
   \<and> length (page_blocks [''Intro'', ''Body'', ''End'']) = 3"
proof -
  have h1: "\<forall>t\<in>set [''Intro'', ''Body'', ''End'']. strip t \<noteq> []" by code_simp
  then have h0: "\<exists>t\<in>set [''Intro'', ''Body'', ''End'']. strip t \<noteq> []" by simp
  have j: "join [CHR 0x0A, CHR 0x0A] (page_blocks [''Intro'', ''Body'', ''End''])
       = ''--- Page 1 ---'' @ [CHR 0x0A] @ ''Intro'' @ [CHR 0x0A, CHR 0x0A]
              @ ''--- Page 2 ---'' @ [CHR 0x0A] @ ''Body'' @ [CHR 0x0A, CHR 0x0A]
              @ ''--- Page 3 ---'' @ [CHR 0x0A] @ ''End''"
    by code_simp
  have h2: "strip ''Intro'' \<noteq> [] \<and> strip ''Body'' \<noteq> [] \<and> strip ''End'' \<noteq> []"
    using h1 by simp
  from extract_text_page_markers [OF h0] h1 h2 j show ?thesis by simp
qed

section \<open>Session identifiers\<close>





text \<open>
  The source's comment calls the session ID unique for the request, and the code keeps the
  first eight digits of the UUID only: two calls whose UUIDs differ can create the same
  session ID.
\<close>

lemma session_id_collision:
  "uuid4 ok_runtime \<noteq> uuid4 second_runtime
   \<and> hd (snd (get_pdf_summary ok_runtime ''Intro''))
       = CreateSession ''pdf_summarizer'' ''pdf_user'' ''pdf_session_1b4e28ba''
   \<and> hd (snd (get_pdf_summary second_runtime ''Outro''))
       = CreateSession ''pdf_summarizer'' ''pdf_user'' ''pdf_session_1b4e28ba''"
  by code_simp

section \<open>Cleanup of the temporary file\<close>

lemma stage_upload_ignores_unlink:
  "stage_upload (env\<lparr>unlink_exn := x\<rparr>) content w = stage_upload env content w"
  by (simp add: stage_upload_def Let_def split: sum.splits option.splits)

lemma fitz_open_ignores_unlink:
  "fitz_open (env\<lparr>unlink_exn := x\<rparr>) w p = fitz_open env w p"
  by (simp add: fitz_open_def split: option.splits)

lemma process_staged_ignores_unlink:
  "process_staged (env\<lparr>unlink_exn := x\<rparr>) filename p w = process_staged env filename p w"
  by (simp add: process_staged_def fitz_open_ignores_unlink Let_def
      split: sum.splits prod.splits)

lemma upload_try_ignores_unlink:
  "upload_try (env\<lparr>unlink_exn := x\<rparr>) filename content w = upload_try env filename content w"
  by (simp add: upload_try_def stage_upload_ignores_unlink process_staged_ignores_unlink
      split: sum.splits prod.splits)

lemma cleanup_fst_ignores_unlink:
  "fst (cleanup (env\<lparr>unlink_exn := x\<rparr>) tried) = fst (cleanup env tried)"
  by (auto simp: cleanup_def split: prod.splits option.splits)

text \<open>Whether \<open>os.unlink\<close> raises or not never changes the response.\<close>

lemma response_ignores_unlink:
  "fst (upload_pdf cfg (env\<lparr>unlink_exn := x\<rparr>) filename content w)
     = fst (upload_pdf cfg env filename content w)"
  by (simp add: upload_pdf_def upload_try_ignores_unlink cleanup_fst_ignores_unlink)

text \<open>
  Once the upload is written to the temporary file, every exit path calls \<open>os.unlink\<close> on
  it, and the file is gone unless \<open>os.unlink\<close> raised.
\<close>

lemma written_file_unlinked:
  assumes "endswith (lower filename) ''.pdf''"
    and "\<not> int (length content) > MAX_FILE_SIZE_BYTES cfg"
    and "length content \<noteq> 0"
    and "tmp_create env = Inr p" and "tmp_write env = None"
  shows "Unlink p \<in> set (log (snd (upload_pdf cfg env filename content w)))
    \<and> (unlink_exn env = None \<longrightarrow> files (snd (upload_pdf cfg env filename content w)) p = None)"
proof (cases "tmp_close env")
  case None
  obtain res w1 where ps: "process_staged env filename p (staged w p content) = (res, w1)"
    by (cases "process_staged env filename p (staged w p content)") auto
  show ?thesis
    using upload_pdf_staged [OF assms(1-5) None ps] by simp
next
  case (Some e)
  have s: "stage_upload env content w = Inl (e, True, Some p, staged w p content)"
    using assms(4,5) Some by (simp add: stage_upload_def staged_def)
  have f: "files (staged w p content) p \<noteq> None" by (simp add: staged_def)
  have "upload_pdf cfg env filename content w
      = cleanup env (Inl (HTTPException 500 (''Unexpected error: '' @ str_exn e)),
                     True, Some p, staged w p content)"
    using assms(1-3) by (simp add: upload_pdf_def upload_try_def s)
  then show ?thesis by (simp add: cleanup_staged [OF f])
qed

text \<open>
  When the write raises, the file exists, \<open>temp_file_path\<close> is unbound and the \<open>finally\<close>
  block raises instead of removing the file.
\<close>

lemma upload_pdf_write_failure:
  assumes "endswith (lower filename) ''.pdf''"
    and "\<not> int (length content) > MAX_FILE_SIZE_BYTES cfg"
    and "length content \<noteq> 0"
    and "tmp_create env = Inr p" and "tmp_write env = Some e"
  shows "upload_pdf cfg env filename content w =
     (Inl (Uncaught (Exn UnboundLocalError unbound_temp_file_path)),
      w\<lparr>files := (files w)(p \<mapsto> []), log := log w @ [CreateTemp p]\<rparr>)"
proof -
  have s: "stage_upload env content w
      = Inl (e, True, None, w\<lparr>files := (files w)(p \<mapsto> []), log := log w @ [CreateTemp p]\<rparr>)"
    using assms(4,5) by (simp add: stage_upload_def)
  show ?thesis
    using assms(1-3) by (simp add: upload_pdf_def upload_try_def s cleanup_def)
qed

section \<open>Extraction failures\<close>

lemma process_staged_extract_failure:
  assumes "files w p = Some b" and "extract_text (pdf_library env b) = Inl e"
  shows "fst (process_staged env filename p w) = Inl (pdf_error e)"
  using assms by (simp add: process_staged_def Let_def fitz_open_staged)

lemma upload_pdf_extract_failure:
  assumes "endswith (lower filename) ''.pdf''"
    and "\<not> int (length content) > MAX_FILE_SIZE_BYTES cfg"
    and "length content \<noteq> 0"
    and "tmp_create env = Inr p" and "tmp_write env = None" and "tmp_close env = None"
    and "extract_text (pdf_library env content) = Inl e"
  shows "fst (upload_pdf cfg env filename content w) = Inl (pdf_error e)"
proof -
  obtain res w1 where ps: "process_staged env filename p (staged w p content) = (res, w1)"
    by (cases "process_staged env filename p (staged w p content)") auto
  have "files (staged w p content) p = Some content" by (simp add: staged_def)
  from process_staged_extract_failure [OF this assms(7), of filename] ps
  have "res = Inl (pdf_error e)" by simp
  then show ?thesis using upload_pdf_staged [OF assms(1-6) ps] by simp
qed

text \<open>A file that the PDF library rejects as corrupted is answered with 400.\<close>

lemma invalid_pdf_answered_400:
  assumes "endswith (lower filename) ''.pdf''"
    and "\<not> int (length content) > MAX_FILE_SIZE_BYTES cfg"
    and "length content \<noteq> 0"
    and "tmp_create env = Inr p" and "tmp_write env = None" and "tmp_close env = None"
    and "pdf_library env content = Inl (Exn FileDataError m)"
  shows "fst (upload_pdf cfg env filename content w)
     = Inl (HTTPException 400 (''Invalid or corrupted PDF file: '' @ m))"
proof -
  have "extract_text (pdf_library env content)
      = Inl (Exn ValueError (''Invalid or corrupted PDF file: '' @ m))"
    using assms(7) by (simp add: extract_text_def extract_text_try_def)
  from upload_pdf_extract_failure [OF assms(1-6) this] show ?thesis
    by (simp add: pdf_error_def)
qed

text \<open>Any other failure to open the file is answered with 500.\<close>

lemma unreadable_pdf_answered_500:
  assumes "endswith (lower filename) ''.pdf''"
    and "\<not> int (length content) > MAX_FILE_SIZE_BYTES cfg"
    and "length content \<noteq> 0"
    and "tmp_create env = Inr p" and "tmp_write env = None" and "tmp_close env = None"
    and "pdf_library env content = Inl e" and "exn_cls e \<noteq> FileDataError"
  shows "fst (upload_pdf cfg env filename content w)
     = Inl (HTTPException 500
         (''Error processing PDF: Error extracting text from PDF: '' @ str_exn e))"
proof -
  have "extract_text (pdf_library env content)
      = Inl (Exn PlainException (''Error extracting text from PDF: '' @ str_exn e))"
    using assms(7,8) by (simp add: extract_text_def extract_text_try_def)
  from upload_pdf_extract_failure [OF assms(1-6) this] show ?thesis
    by (simp add: pdf_error_def)
qed

text \<open>A PDF whose pages all give blank text is answered with 500, whatever its pages.\<close>

lemma blank_pdf_answered_500:
  assumes "endswith (lower filename) ''.pdf''"
    and "\<not> int (length content) > MAX_FILE_SIZE_BYTES cfg"
    and "length content \<noteq> 0"
    and "tmp_create env = Inr p" and "tmp_write env = None" and "tmp_close env = None"
    and "pdf_library env content = Inr (map Inr texts)" and "\<forall>t\<in>set texts. strip t = []"
  shows "fst (upload_pdf cfg env filename content w)
     = Inl (HTTPException 500
         ''Error processing PDF: Error extracting text from PDF: No text content found in PDF'')"
proof -
  have "page_blocks texts = []" using assms(8) page_blocks_empty by blast
  then have "extract_pages (map Inr texts) 0 [] = Inr []"
    by (simp add: extract_pages_blocks page_blocks_marker)
  then have "extract_text (pdf_library env content)
      = Inl (Exn PlainException
           (''Error extracting text from PDF: '' @ ''No text content found in PDF''))"
    using assms(7) by (simp add: extract_text_def extract_text_try_def)
  from upload_pdf_extract_failure [OF assms(1-6) this] show ?thesis
    by (simp add: pdf_error_def)
qed

text \<open>
  C1. The temporary file is meant to be removed on every exit path. When writing the
  upload to the temporary file fails, the file exists and \<open>temp_file_path\<close> is still
  unbound; the \<open>finally\<close> block then raises \<open>UnboundLocalError\<close>, which replaces the
  response of the \<open>except\<close> clause, \<open>os.unlink\<close> is not called and the file stays.
\<close>

theorem write_failure_leaves_temp_file:
  "fst (upload_pdf cfg10 disk_full_env ''report.pdf'' upload_64k world0)
     = Inl (Uncaught (Exn UnboundLocalError unbound_temp_file_path))
   \<and> files world0 ''/tmp/tmpk3x9.pdf'' = None
   \<and> files (snd (upload_pdf cfg10 disk_full_env ''report.pdf'' upload_64k world0))
        ''/tmp/tmpk3x9.pdf'' = Some []
   \<and> log (snd (upload_pdf cfg10 disk_full_env ''report.pdf'' upload_64k world0))
        = [CreateTemp ''/tmp/tmpk3x9.pdf'']"
proof -
  have h1: "endswith (lower ''report.pdf'') ''.pdf''" by code_simp
  have h2: "\<not> int (length upload_64k) > MAX_FILE_SIZE_BYTES cfg10"
    by (simp add: upload_64k_def MAX_FILE_SIZE_BYTES_def cfg10_def)
  have h3: "length upload_64k \<noteq> 0" by (simp add: upload_64k_def)
  have h4: "tmp_create disk_full_env = Inr ''/tmp/tmpk3x9.pdf''"
    by (simp add: disk_full_env_def ok_env_def)
  have h5: "tmp_write disk_full_env
      = Some (Exn OSError ''[Errno 28] No space left on device'')"
    by (simp add: disk_full_env_def ok_env_def)
  show ?thesis
    by (simp add: upload_pdf_write_failure [OF h1 h2 h3 h4 h5] world0_def)
qed

end
